theory Spec2Isabelle
  imports Main
begin

section \<open>Event dispatch of the tracking and analytics utilities\<close>

text \<open>
  The repository has two utilities of the same shape, \<^verbatim>\<open>UtilitiesTracking\<close> and
  \<^verbatim>\<open>UtilitiesAnalytics\<close>. Both are embedded by one set of definitions that take the
  utility as a parameter; the places where the two sources differ (the override flag, the
  identifier that becomes the user hash, the endpoint, the level of the failure log) are
  functions of that parameter.

  The collaborators (the store, the configuration, the clock, the logger) are read as
  values: a call is a function of what it reads from them, of the instance, and of the
  way its request ends. Times are \<^verbatim>\<open>Date.now()\<close> values, whole milliseconds, for
  which the arithmetic of JavaScript numbers is that of the integers.
\<close>

datatype utility = Tracking | Analytics

subsection \<open>Data model\<close>

datatype event_name = AppHeartbeat | AccountSignin | AccountSignout | ProfileUpdate

text \<open>The string value of each enumeration member; the register is keyed by it.\<close>

fun event_name_value :: "event_name \<Rightarrow> string" where
  "event_name_value AppHeartbeat = ''app:heartbeat''"
| "event_name_value AccountSignin = ''account:signin''"
| "event_name_value AccountSignout = ''account:signout''"
| "event_name_value ProfileUpdate = ''profile:update''"

record event_origin_app =
  app_name :: string
  app_version :: string
  app_platform :: string

record event_origin_pod =
  domain_hash :: string
  user_hash :: "string option"

record event_origin =
  origin_app :: event_origin_app
  origin_pod :: event_origin_pod

text \<open>
  The payload; \<open>'d\<close> is the type of the optional \<^verbatim>\<open>data\<close> object, which the code only
  copies into the payload (an object that \<^verbatim>\<open>JSON.stringify\<close> serialises).
\<close>

record 'd event_payload =
  payload_name :: event_name
  payload_data :: "'d option"
  payload_origin :: event_origin

text \<open>
  The identity \<^verbatim>\<open>Store.$account.getSelfJID()\<close> returns, as the three observations the
  code makes of it: \<^verbatim>\<open>.node\<close>, \<^verbatim>\<open>.domain\<close> (\<open>None\<close> is \<^verbatim>\<open>undefined\<close>) and
  \<^verbatim>\<open>.toString()\<close>. The class itself belongs to the XMPP library.
\<close>

record jid =
  jid_node :: "string option"
  jid_domain :: "string option"
  jid_to_string :: string

text \<open>
  What one call reads from its collaborators: the privacy setting
  \<^verbatim>\<open>Store.$settings.privacy.report.tracking\<close> (both utilities read this one), the two
  configuration overrides (\<open>None\<close> when \<^verbatim>\<open>CONFIG.overrides\<close> or the flag is absent),
  \<^verbatim>\<open>Date.now()\<close> in milliseconds, and the identity.
\<close>

record env =
  privacy_report_tracking :: "bool option"
  overrides_disableTracking :: "bool option"
  overrides_disableAnalytics :: "bool option"
  now :: int
  self_jid :: jid

text \<open>
  How the awaited \<^verbatim>\<open>fetch\<close> ends: the promise rejects (a network error), or it
  resolves with a response whose \<^verbatim>\<open>ok\<close> flag is given.
\<close>

datatype response = Rejected | Response bool

text \<open>Every \<^verbatim>\<open>throw\<close> of the code, and the rejection of \<^verbatim>\<open>fetch\<close>.\<close>

datatype error =
    DisabledByOverride
  | SendingTooFrequently
  | RequestFailed
  | IncompleteOriginData
  | FetchRejected

datatype log_level = Debug | Info | Warn

datatype log_message =
    Skipped event_name
  | Sending event_name
  | Sent event_name
  | Failed event_name error

text \<open>What a call does to the outside: log entries and requests, in order.\<close>

datatype 'd effect =
    Log log_level log_message
  | Fetch string "'d event_payload"

text \<open>The instance: the frozen application origin and the register.\<close>

record dispatcher =
  eventOriginApp :: event_origin_app
  eventsNextAllowedSendRegister :: "string \<rightharpoonup> int"

text \<open>
  The outcome of a call: how its promise settles (\<open>Inl\<close> is a rejection or a throw
  reaching the caller), the instance afterwards, and the effects.
\<close>

record 'd outcome =
  settled :: "error + unit"
  state :: dispatcher
  effects :: "'d effect list"

subsection \<open>Constants\<close>

definition EVENT_NAME_NEXT_SEND_DELAY :: int where
  "EVENT_NAME_NEXT_SEND_DELAY = 3000"

definition ANONYMIZED_USER_IDENTIFIER_SHORT_LENGTH :: nat where
  "ANONYMIZED_USER_IDENTIFIER_SHORT_LENGTH = 16"

subsection \<open>Construction\<close>

text \<open>\<^verbatim>\<open>String.prototype.split\<close> on a one-character separator.\<close>

fun js_split :: "char \<Rightarrow> string \<Rightarrow> string list" where
  "js_split sep [] = [[]]"
| "js_split sep (c # cs) =
     (if c = sep then [] # js_split sep cs
      else (case js_split sep cs of
              w # ws \<Rightarrow> (c # w) # ws
            | [] \<Rightarrow> [[c]]))"

text \<open>
  \<^verbatim>\<open>projectPackage.name.split("/")[1] || projectPackage.name\<close>: the second part of the
  package name, or the whole name when there is none or it is empty.
\<close>

definition prepareEventOriginApp :: "string \<Rightarrow> string \<Rightarrow> string \<Rightarrow> event_origin_app" where
  "prepareEventOriginApp packageName packageVersion runtimePlatform =
     \<lparr> app_name =
         (case js_split (CHR ''/'') packageName of
            _ # part # _ \<Rightarrow> if part \<noteq> [] then part else packageName
          | _ \<Rightarrow> packageName),
       app_version = packageVersion,
       app_platform = runtimePlatform \<rparr>"

definition constructor :: "string \<Rightarrow> string \<Rightarrow> string \<Rightarrow> dispatcher" where
  "constructor packageName packageVersion runtimePlatform =
     \<lparr> eventOriginApp = prepareEventOriginApp packageName packageVersion runtimePlatform,
       eventsNextAllowedSendRegister = Map.empty \<rparr>"

subsection \<open>Anonymisation and origin\<close>

text \<open>
  \<open>Sha256\<close> stands for \<^verbatim>\<open>Sha256(identifier).toString()\<close> of the crypto library, the
  digest as a string; it is a parameter of the embedding.
\<close>

definition anonymizeUserIdentifier :: "(string \<Rightarrow> string) \<Rightarrow> string option \<Rightarrow> string option" where
  "anonymizeUserIdentifier Sha256 identifier =
     (case identifier of
        None \<Rightarrow> None
      | Some i \<Rightarrow>
          if length i > 0
          then Some (take ANONYMIZED_USER_IDENTIFIER_SHORT_LENGTH (Sha256 i))
          else None)"

text \<open>
  The identifier that becomes the user hash: \<^verbatim>\<open>selfJID.node\<close> in the tracking
  utility, \<^verbatim>\<open>selfJID.toString()\<close> in the analytics utility.
\<close>

fun user_identifier :: "utility \<Rightarrow> jid \<Rightarrow> string option" where
  "user_identifier Tracking selfJID = jid_node selfJID"
| "user_identifier Analytics selfJID = Some (jid_to_string selfJID)"

definition makeEventOrigin ::
  "(string \<Rightarrow> string) \<Rightarrow> utility \<Rightarrow> dispatcher \<Rightarrow> jid \<Rightarrow> error + event_origin" where
  "makeEventOrigin Sha256 u this selfJID =
     (let domainHash = anonymizeUserIdentifier Sha256 (jid_domain selfJID);
          userHash = anonymizeUserIdentifier Sha256 (user_identifier u selfJID)
      in case (domainHash, userHash) of
           (Some d, Some h) \<Rightarrow>
             Inr \<lparr> origin_app = eventOriginApp this,
                   origin_pod = \<lparr> domain_hash = d, user_hash = Some h \<rparr> \<rparr>
         | _ \<Rightarrow> Inl IncompleteOriginData)"

subsection \<open>The rate-limit test\<close>

text \<open>
  The test is \<^verbatim>\<open>nowTime < register[name] || 0\<close>, which JavaScript reads as
  \<^verbatim>\<open>(nowTime < register[name]) || 0\<close>. A comparison with \<^verbatim>\<open>undefined\<close> is false, and
  the \<^verbatim>\<open>if\<close> takes the truthiness of the disjunction.
\<close>

datatype js_value = JSBool bool | JSNumber int

fun js_truthy :: "js_value \<Rightarrow> bool" where
  "js_truthy (JSBool b) = b"
| "js_truthy (JSNumber n) = (n \<noteq> 0)"

definition js_or :: "js_value \<Rightarrow> js_value \<Rightarrow> js_value" where
  "js_or a b = (if js_truthy a then a else b)"

definition js_less :: "int \<Rightarrow> int option \<Rightarrow> bool" where
  "js_less a b = (case b of None \<Rightarrow> False | Some v \<Rightarrow> a < v)"

definition sendingTooFrequently :: "int \<Rightarrow> (string \<rightharpoonup> int) \<Rightarrow> event_name \<Rightarrow> bool" where
  "sendingTooFrequently nowTime register name =
     js_truthy (js_or (JSBool (js_less nowTime (register (event_name_value name)))) (JSNumber 0))"

subsection \<open>Dispatch\<close>

fun disabledByOverride :: "utility \<Rightarrow> env \<Rightarrow> bool" where
  "disabledByOverride Tracking e = (overrides_disableTracking e = Some True)"
| "disabledByOverride Analytics e = (overrides_disableAnalytics e = Some True)"

fun endpoint :: "utility \<Rightarrow> string" where
  "endpoint Tracking = ''/_api/cloud/v1/track/event''"
| "endpoint Analytics = ''/_api/cloud/v1/analytics/event''"

fun failure_level :: "utility \<Rightarrow> log_level" where
  "failure_level Tracking = Warn"
| "failure_level Analytics = Info"

text \<open>
  The \<^verbatim>\<open>try\<close> block of \<^verbatim>\<open>__dispatchEvent\<close> up to the point where it awaits
  \<^verbatim>\<open>fetch\<close>: the origin is built first, then the override and the rate limit are tested,
  then the register is written and the request is issued. \<open>Inl\<close> is a throw.
\<close>

definition dispatchEvent_try ::
  "(string \<Rightarrow> string) \<Rightarrow> utility \<Rightarrow> env \<Rightarrow> event_name \<Rightarrow> 'd option \<Rightarrow> dispatcher
     \<Rightarrow> (error + 'd event_payload) \<times> dispatcher \<times> 'd effect list" where
  "dispatchEvent_try Sha256 u e name data this =
     (case makeEventOrigin Sha256 u this (self_jid e) of
        Inl err \<Rightarrow> (Inl err, this, [])
      | Inr origin \<Rightarrow>
          (let eventData = \<lparr> payload_name = name, payload_data = data, payload_origin = origin \<rparr>;
               nowTime = now e
           in if disabledByOverride u e
              then (Inl DisabledByOverride, this, [Log Debug (Sending name)])
              else if sendingTooFrequently nowTime (eventsNextAllowedSendRegister this) name
              then (Inl SendingTooFrequently, this, [Log Debug (Sending name)])
              else (Inr eventData,
                    this\<lparr> eventsNextAllowedSendRegister :=
                      (eventsNextAllowedSendRegister this)
                        (event_name_value name \<mapsto> nowTime + EVENT_NAME_NEXT_SEND_DELAY) \<rparr>,
                    [Log Debug (Sending name), Fetch (endpoint u) eventData])))"

text \<open>The rest of the \<^verbatim>\<open>try\<close> block, once \<^verbatim>\<open>fetch\<close> has ended.\<close>

fun dispatchEvent_response :: "event_name \<Rightarrow> response \<Rightarrow> (error + unit) \<times> 'd effect list" where
  "dispatchEvent_response name Rejected = (Inl FetchRejected, [])"
| "dispatchEvent_response name (Response ok) =
     (if ok \<noteq> True then (Inl RequestFailed, []) else (Inr (), [Log Info (Sent name)]))"

text \<open>The \<^verbatim>\<open>catch\<close> clause: the error is logged and the block completes normally.\<close>

definition dispatchEvent_catch ::
  "utility \<Rightarrow> event_name \<Rightarrow> (error + unit) \<times> 'd effect list \<Rightarrow> (error + unit) \<times> 'd effect list" where
  "dispatchEvent_catch u name r =
     (case r of
        (Inl err, fx) \<Rightarrow> (Inr (), fx @ [Log (failure_level u) (Failed name err)])
      | (Inr v, fx) \<Rightarrow> (Inr v, fx))"

text \<open>
  \<^verbatim>\<open>__dispatchEvent\<close>, run to the end with the given end of \<^verbatim>\<open>fetch\<close> (which is only
  consulted when a request was issued).
\<close>

definition dispatchEvent ::
  "(string \<Rightarrow> string) \<Rightarrow> utility \<Rightarrow> env \<Rightarrow> response \<Rightarrow> event_name \<Rightarrow> 'd option \<Rightarrow> dispatcher
     \<Rightarrow> 'd outcome" where
  "dispatchEvent Sha256 u e resp name data this =
     (case dispatchEvent_try Sha256 u e name data this of
        (Inl err, this', fx) \<Rightarrow>
          (case dispatchEvent_catch u name (Inl err, fx) of
             (r, fx') \<Rightarrow> \<lparr> settled = r, state = this', effects = fx' \<rparr>)
      | (Inr eventData, this', fx) \<Rightarrow>
          (case dispatchEvent_catch u name (dispatchEvent_response name resp) of
             (r, fx') \<Rightarrow> \<lparr> settled = r, state = this', effects = fx @ fx' \<rparr>))"

text \<open>\<^verbatim>\<open>event\<close>, the operation the specification calls \<^verbatim>\<open>record\<close>.\<close>

definition event ::
  "(string \<Rightarrow> string) \<Rightarrow> utility \<Rightarrow> env \<Rightarrow> response \<Rightarrow> event_name \<Rightarrow> 'd option \<Rightarrow> dispatcher
     \<Rightarrow> 'd outcome" where
  "event Sha256 u e resp name data this =
     (if privacy_report_tracking e \<noteq> Some False
      then dispatchEvent Sha256 u e resp name data this
      else \<lparr> settled = Inr (), state = this, effects = [Log Debug (Skipped name)] \<rparr>)"

text \<open>The requests among the effects of a call.\<close>

fun requests :: "'d effect list \<Rightarrow> 'd event_payload list" where
  "requests [] = []"
| "requests (Log l m # fx) = requests fx"
| "requests (Fetch url p # fx) = p # requests fx"

subsection \<open>Notions used to state the properties\<close>

text \<open>
  A call issues a request exactly when it passes every test that comes before
  \<^verbatim>\<open>fetch\<close> in the source: the privacy setting, the origin, the override and the rate
  limit.
\<close>

definition dispatches ::
  "(string \<Rightarrow> string) \<Rightarrow> utility \<Rightarrow> env \<Rightarrow> event_name \<Rightarrow> dispatcher \<Rightarrow> bool" where
  "dispatches Sha256 u e name this =
     (privacy_report_tracking e \<noteq> Some False \<and>
      makeEventOrigin Sha256 u this (self_jid e) \<noteq> Inl IncompleteOriginData \<and>
      \<not> disabledByOverride u e \<and>
      \<not> sendingTooFrequently (now e) (eventsNextAllowedSendRegister this) name)"

text \<open>The assignment to the register in \<^verbatim>\<open>__dispatchEvent\<close>, on its own.\<close>

definition reserve :: "env \<Rightarrow> event_name \<Rightarrow> dispatcher \<Rightarrow> dispatcher" where
  "reserve e name this =
     this\<lparr> eventsNextAllowedSendRegister :=
       (eventsNextAllowedSendRegister this)
         (event_name_value name \<mapsto> now e + EVENT_NAME_NEXT_SEND_DELAY) \<rparr>"

text \<open>
  The life of one instance: a sequence of calls of \<^verbatim>\<open>event\<close>, each with what it reads
  and how its request ends, run one after the other on the instance.
\<close>

record 'd call =
  call_env :: env
  call_response :: response
  call_name :: event_name
  call_data :: "'d option"

fun run ::
  "(string \<Rightarrow> string) \<Rightarrow> utility \<Rightarrow> dispatcher \<Rightarrow> 'd call list \<Rightarrow> dispatcher \<times> 'd effect list" where
  "run Sha256 u this [] = (this, [])"
| "run Sha256 u this (c # cs) =
     (let out = event Sha256 u (call_env c) (call_response c) (call_name c) (call_data c) this;
          rest = run Sha256 u (state out) cs
      in (fst rest, effects out @ snd rest))"

subsection \<open>Inputs of the examples\<close>

text \<open>
  The digest function on the identifiers the examples use, with the digests SHA-256 gives
  for them; on every other string it returns a word of 64 zeros.
\<close>

definition example_digest :: "string \<Rightarrow> string" where
  "example_digest s =
     (if s = ''example.org''
      then ''bfabc37432958b063360d3ad6461c9c4735ae7f8edd46592a5e0f01452b2e4b5''
      else if s = ''alice''
      then ''2bd806c97f0e00af1a1fc3328fa763a9269723c8db8fac4f93af71db186d6e90''
      else if s = ''alice@example.org''
      then ''7a64adf28737ea90719cbdf0b1a87a5effff3753b79c91d717f4f4153ead0498''
      else replicate 64 (CHR ''0''))"

definition alice :: jid where
  "alice = \<lparr> jid_node = Some ''alice'', jid_domain = Some ''example.org'',
             jid_to_string = ''alice@example.org'' \<rparr>"

text \<open>An identity without a local part: the address of a domain.\<close>

definition domain_only :: jid where
  "domain_only = \<lparr> jid_node = None, jid_domain = Some ''example.org'',
                   jid_to_string = ''example.org'' \<rparr>"

text \<open>A user who has not opted out, no override set, at the given time.\<close>

definition env_at :: "int \<Rightarrow> jid \<Rightarrow> env" where
  "env_at t j =
     \<lparr> privacy_report_tracking = Some True, overrides_disableTracking = None,
       overrides_disableAnalytics = None, now = t, self_jid = j \<rparr>"

definition fresh :: dispatcher where
  "fresh = constructor ''@prose-im/prose-app-web'' ''0.0.0'' ''web''"

section \<open>Auxiliary facts\<close>

lemmas example_defs =
  example_digest_def alice_def domain_only_def env_at_def fresh_def
  constructor_def

lemma sendingTooFrequently_iff:
  "sendingTooFrequently t reg name \<longleftrightarrow> (\<exists>v. reg (event_name_value name) = Some v \<and> t < v)"
  by (simp add: sendingTooFrequently_def js_or_def js_less_def split: option.splits)

lemma anonymize_None_iff:
  "anonymizeUserIdentifier Sha256 i = None \<longleftrightarrow> i = None \<or> i = Some []"
  by (simp add: anonymizeUserIdentifier_def split: option.splits)

lemma anonymize_Some:
  "anonymizeUserIdentifier Sha256 i = Some h \<Longrightarrow>
     \<exists>s. i = Some s \<and> s \<noteq> [] \<and> h = take 16 (Sha256 s)"
  by (auto simp: anonymizeUserIdentifier_def ANONYMIZED_USER_IDENTIFIER_SHORT_LENGTH_def
      split: option.splits if_splits)

lemma makeEventOrigin_error:
  "makeEventOrigin Sha256 u this j = Inl err \<Longrightarrow> err = IncompleteOriginData"
  by (auto simp: makeEventOrigin_def Let_def split: option.splits)

lemma makeEventOrigin_incomplete_iff:
  "makeEventOrigin Sha256 u this j = Inl IncompleteOriginData \<longleftrightarrow>
     anonymizeUserIdentifier Sha256 (jid_domain j) = None \<or>
     anonymizeUserIdentifier Sha256 (user_identifier u j) = None"
  by (auto simp: makeEventOrigin_def Let_def split: option.splits)

lemma makeEventOrigin_complete:
  "makeEventOrigin Sha256 u this j \<noteq> Inl IncompleteOriginData \<Longrightarrow>
     \<exists>origin. makeEventOrigin Sha256 u this j = Inr origin"
  by (cases "makeEventOrigin Sha256 u this j") (auto dest: makeEventOrigin_error)

lemma makeEventOrigin_app:
  "makeEventOrigin Sha256 u this j = Inr origin \<Longrightarrow> origin_app origin = eventOriginApp this"
  by (auto simp: makeEventOrigin_def Let_def split: option.splits)

lemma makeEventOrigin_register:
  "makeEventOrigin Sha256 u (this\<lparr>eventsNextAllowedSendRegister := r\<rparr>) j =
     makeEventOrigin Sha256 u this j"
  by (simp add: makeEventOrigin_def split: option.splits)

lemma requests_append: "requests (xs @ ys) = requests xs @ requests ys"
  by (induction xs rule: requests.induct) simp_all

lemma catch_Inl:
  "dispatchEvent_catch u name (Inl err, fx) =
     (Inr (), fx @ [Log (failure_level u) (Failed name err)])"
  by (simp add: dispatchEvent_catch_def)

lemma catch_response:
  "dispatchEvent_catch u name (dispatchEvent_response name resp) =
     (Inr (),
      case resp of
        Rejected \<Rightarrow> [Log (failure_level u) (Failed name FetchRejected)]
      | Response ok \<Rightarrow>
          if ok then [Log Info (Sent name)]
          else [Log (failure_level u) (Failed name RequestFailed)])"
  by (cases resp) (simp_all add: dispatchEvent_catch_def)

text \<open>What a call leaves behind, case by case.\<close>

lemma event_settled: "settled (event Sha256 u e resp name data this) = Inr ()"
  by (simp add: event_def dispatchEvent_def catch_Inl catch_response
      split: sum.splits prod.splits)

lemma event_state:
  "state (event Sha256 u e resp name data this) =
     (if dispatches Sha256 u e name this then reserve e name this else this)"
  by (auto simp: event_def dispatchEvent_def dispatchEvent_try_def dispatches_def reserve_def
      catch_Inl catch_response Let_def split: sum.splits dest: makeEventOrigin_error)

lemma event_effects:
  "effects (event Sha256 u e resp name data this) =
     (if privacy_report_tracking e = Some False then [Log Debug (Skipped name)]
      else case makeEventOrigin Sha256 u this (self_jid e) of
        Inl err \<Rightarrow> [Log (failure_level u) (Failed name err)]
      | Inr origin \<Rightarrow>
          if disabledByOverride u e
          then [Log Debug (Sending name),
                Log (failure_level u) (Failed name DisabledByOverride)]
          else if sendingTooFrequently (now e) (eventsNextAllowedSendRegister this) name
          then [Log Debug (Sending name),
                Log (failure_level u) (Failed name SendingTooFrequently)]
          else [Log Debug (Sending name),
                Fetch (endpoint u)
                  \<lparr> payload_name = name, payload_data = data, payload_origin = origin \<rparr>]
               @ (case resp of
                    Rejected \<Rightarrow> [Log (failure_level u) (Failed name FetchRejected)]
                  | Response ok \<Rightarrow>
                      if ok then [Log Info (Sent name)]
                      else [Log (failure_level u) (Failed name RequestFailed)]))"
  by (simp add: event_def dispatchEvent_def dispatchEvent_try_def
      catch_Inl catch_response Let_def split: sum.splits)

lemma requests_response_log:
  "requests (case resp of
        Rejected \<Rightarrow> [Log l (Failed name FetchRejected)]
      | Response ok \<Rightarrow>
          if ok then [Log Info (Sent name)] else [Log l (Failed name RequestFailed)]) = []"
  by (cases resp) simp_all

lemma event_requests:
  "requests (effects (event Sha256 u e resp name data this)) =
     (if dispatches Sha256 u e name this
      then [\<lparr> payload_name = name, payload_data = data,
              payload_origin = projr (makeEventOrigin Sha256 u this (self_jid e)) \<rparr>]
      else [])"
  by (auto simp: event_effects dispatches_def requests_append requests_response_log
      split: sum.splits dest: makeEventOrigin_error)

lemma reserve_register:
  "eventsNextAllowedSendRegister (reserve e name this) (event_name_value name) =
     Some (now e + 3000)"
  by (simp add: reserve_def EVENT_NAME_NEXT_SEND_DELAY_def)

lemma reserve_app: "eventOriginApp (reserve e name this) = eventOriginApp this"
  by (simp add: reserve_def)

lemma event_app: "eventOriginApp (state (event Sha256 u e resp name data this)) = eventOriginApp this"
  by (simp add: event_state reserve_app)

lemma dispatchEvent_settled: "settled (dispatchEvent Sha256 u e resp name data this) = Inr ()"
  by (simp add: dispatchEvent_def catch_Inl catch_response split: sum.splits prod.splits)

lemma dispatches_after_reserve:
  "dispatches Sha256 u e2 name (reserve e1 name this) \<Longrightarrow> now e1 + 3000 \<le> now e2"
  by (simp add: dispatches_def sendingTooFrequently_iff reserve_def
      EVENT_NAME_NEXT_SEND_DELAY_def)

text \<open>The life of an instance keeps the application origin.\<close>

lemma request_origin_app:
  assumes "makeEventOrigin Sha256 u this j \<noteq> Inl IncompleteOriginData"
  shows "origin_app (projr (makeEventOrigin Sha256 u this j)) = eventOriginApp this"
proof -
  obtain origin where o: "makeEventOrigin Sha256 u this j = Inr origin"
    using assms makeEventOrigin_complete by blast
  then show ?thesis
    by (simp add: makeEventOrigin_app [OF o])
qed

lemma run_origin_app:
  "eventOriginApp (fst (run Sha256 u this cs)) = eventOriginApp this \<and>
   (\<forall>payload \<in> set (requests (snd (run Sha256 u this cs))).
      origin_app (payload_origin payload) = eventOriginApp this)"
proof (induction cs arbitrary: this)
  case Nil
  show ?case by simp
next
  case (Cons c cs)
  let ?out = "event Sha256 u (call_env c) (call_response c) (call_name c) (call_data c) this"
  have here: "\<forall>payload \<in> set (requests (effects ?out)).
      origin_app (payload_origin payload) = eventOriginApp this"
    by (simp add: event_requests dispatches_def request_origin_app)
  have kept: "eventOriginApp (state ?out) = eventOriginApp this"
    by (rule event_app)
  from Cons.IH [of "state ?out"] here kept show ?case
    by (auto simp: Let_def requests_append)
qed

text \<open>
  What the two hashes of an origin are, for a digest function that prints 64 characters as
  SHA-256 does.
\<close>

lemma anonymize_present:
  "s \<noteq> [] \<Longrightarrow> anonymizeUserIdentifier Sha256 (Some s) = Some (take 16 (Sha256 s))"
  by (simp add: anonymizeUserIdentifier_def ANONYMIZED_USER_IDENTIFIER_SHORT_LENGTH_def)

lemma makeEventOrigin_hashes:
  assumes "jid_domain j = Some d" and "d \<noteq> []"
    and "user_identifier u j = Some s" and "s \<noteq> []"
  shows "makeEventOrigin Sha256 u this j =
           Inr \<lparr> origin_app = eventOriginApp this,
                 origin_pod = \<lparr> domain_hash = take 16 (Sha256 d),
                                 user_hash = Some (take 16 (Sha256 s)) \<rparr> \<rparr>"
  using assms by (simp add: makeEventOrigin_def anonymize_present)

lemma short_hash_length: "length (Sha256 s) = 64 \<Longrightarrow> length (take 16 (Sha256 s)) = 16"
  by simp

lemma short_hash_differs:
  "length (Sha256 s) = 64 \<Longrightarrow> length s \<noteq> 16 \<Longrightarrow> take 16 (Sha256 s) \<noteq> s"
  by (metis short_hash_length)

section \<open>The claims\<close>

text \<open>
  C1. Whatever the event name, the data and the course of the call, \<^verbatim>\<open>event\<close> settles
  normally, and so does \<^verbatim>\<open>__dispatchEvent\<close>: the caller never sees a throw or a
  rejection. Each failure (override, rate limit, incomplete origin, rejected request,
  response that is not ok) ends in one log entry that names the event and the error; the
  opt-out ends in the debug entry of the skip.
\<close>

theorem event_never_throws:
  "settled (event Sha256 u e resp name data this) = Inr () \<and>
   settled (dispatchEvent Sha256 u e resp name data this) = Inr () \<and>
   effects (event Sha256 u e resp name data this) =
     (if privacy_report_tracking e = Some False then [Log Debug (Skipped name)]
      else case makeEventOrigin Sha256 u this (self_jid e) of
        Inl err \<Rightarrow> [Log (failure_level u) (Failed name err)]
      | Inr origin \<Rightarrow>
          if disabledByOverride u e
          then [Log Debug (Sending name),
                Log (failure_level u) (Failed name DisabledByOverride)]
          else if sendingTooFrequently (now e) (eventsNextAllowedSendRegister this) name
          then [Log Debug (Sending name),
                Log (failure_level u) (Failed name SendingTooFrequently)]
          else [Log Debug (Sending name),
                Fetch (endpoint u)
                  \<lparr> payload_name = name, payload_data = data, payload_origin = origin \<rparr>]
               @ (case resp of
                    Rejected \<Rightarrow> [Log (failure_level u) (Failed name FetchRejected)]
                  | Response ok \<Rightarrow>
                      if ok then [Log Info (Sent name)]
                      else [Log (failure_level u) (Failed name RequestFailed)]))"
  using event_settled [of Sha256 u e resp name data this]
    dispatchEvent_settled [of Sha256 u e resp name data this]
    event_effects [of Sha256 u e resp name data this]
  by blast

text \<open>
  C4. When the privacy setting is \<^verbatim>\<open>false\<close> (the user opted out), \<^verbatim>\<open>event\<close> issues no
  request, whatever the event name and the data: it writes the debug entry of the skip,
  leaves the instance as it was and settles normally.
\<close>

theorem event_opted_out:
  assumes "privacy_report_tracking e = Some False"
  shows "event Sha256 u e resp name data this =
           \<lparr> settled = Inr (), state = this, effects = [Log Debug (Skipped name)] \<rparr> \<and>
         requests (effects (event Sha256 u e resp name data this)) = []"
  using assms by (simp add: event_def)

theorem event_opted_out_witness:
  "event example_digest Tracking ((env_at 1700000000000 alice)\<lparr>privacy_report_tracking := Some False\<rparr>)
       (Response True) AppHeartbeat (None :: unit option) fresh =
     \<lparr> settled = Inr (), state = fresh, effects = [Log Debug (Skipped AppHeartbeat)] \<rparr> \<and>
   requests (effects (event example_digest Tracking
       ((env_at 1700000000000 alice)\<lparr>privacy_report_tracking := Some False\<rparr>)
       (Response True) AppHeartbeat (None :: unit option) fresh)) = []"
proof -
  have h: "privacy_report_tracking
      ((env_at 1700000000000 alice)\<lparr>privacy_report_tracking := Some False\<rparr>) = Some False"
    by simp
  show ?thesis
    by (rule event_opted_out [OF h])
qed

text \<open>
  C10. A call that is vetoed, by the opt-out, the override, the rate limit or an
  incomplete origin, leaves the instance, and so the register, exactly as it was. The
  register differs after a call only when the call passed the opt-out, the override and
  the rate limit and had a complete origin; and a call never touches the entry of
  another event name.
\<close>

theorem register_veto_atomicity:
  "(privacy_report_tracking e = Some False \<or>
    disabledByOverride u e \<or>
    sendingTooFrequently (now e) (eventsNextAllowedSendRegister this) name \<or>
    makeEventOrigin Sha256 u this (self_jid e) = Inl IncompleteOriginData
      \<longrightarrow> state (event Sha256 u e resp name data this) = this) \<and>
   (eventsNextAllowedSendRegister (state (event Sha256 u e resp name data this))
      \<noteq> eventsNextAllowedSendRegister this
      \<longrightarrow> privacy_report_tracking e \<noteq> Some False \<and>
          \<not> disabledByOverride u e \<and>
          \<not> sendingTooFrequently (now e) (eventsNextAllowedSendRegister this) name \<and>
          makeEventOrigin Sha256 u this (self_jid e) \<noteq> Inl IncompleteOriginData) \<and>
   (\<forall>key. key \<noteq> event_name_value name \<longrightarrow>
      eventsNextAllowedSendRegister (state (event Sha256 u e resp name data this)) key =
        eventsNextAllowedSendRegister this key)"
proof (intro conjI impI allI)
  assume "privacy_report_tracking e = Some False \<or>
    disabledByOverride u e \<or>
    sendingTooFrequently (now e) (eventsNextAllowedSendRegister this) name \<or>
    makeEventOrigin Sha256 u this (self_jid e) = Inl IncompleteOriginData"
  then have "\<not> dispatches Sha256 u e name this"
    by (auto simp: dispatches_def)
  then show "state (event Sha256 u e resp name data this) = this"
    by (simp add: event_state)
next
  assume changed: "eventsNextAllowedSendRegister (state (event Sha256 u e resp name data this))
      \<noteq> eventsNextAllowedSendRegister this"
  have d: "dispatches Sha256 u e name this"
  proof (rule ccontr)
    assume "\<not> dispatches Sha256 u e name this"
    then have "state (event Sha256 u e resp name data this) = this"
      by (simp add: event_state)
    with changed show False by simp
  qed
  from d show "privacy_report_tracking e \<noteq> Some False"
    by (simp add: dispatches_def)
  from d show "\<not> disabledByOverride u e"
    by (simp add: dispatches_def)
  from d show "\<not> sendingTooFrequently (now e) (eventsNextAllowedSendRegister this) name"
    by (simp add: dispatches_def)
  from d show "makeEventOrigin Sha256 u this (self_jid e) \<noteq> Inl IncompleteOriginData"
    by (simp add: dispatches_def)
next
  fix key :: string
  assume "key \<noteq> event_name_value name"
  then show "eventsNextAllowedSendRegister (state (event Sha256 u e resp name data this)) key =
      eventsNextAllowedSendRegister this key"
    by (simp add: event_state reserve_def)
qed

theorem register_veto_atomicity_witness:
  "state (event example_digest Tracking (env_at 1700000000000 domain_only) Rejected
       AppHeartbeat (None :: unit option) fresh) = fresh \<and>
   eventsNextAllowedSendRegister (state (event example_digest Tracking
       (env_at 1700000000000 alice) Rejected AppHeartbeat (None :: unit option) fresh))
     \<noteq> eventsNextAllowedSendRegister fresh \<and>
   privacy_report_tracking (env_at 1700000000000 alice) \<noteq> Some False \<and>
   \<not> disabledByOverride Tracking (env_at 1700000000000 alice) \<and>
   \<not> sendingTooFrequently (now (env_at 1700000000000 alice))
       (eventsNextAllowedSendRegister fresh) AppHeartbeat \<and>
   makeEventOrigin example_digest Tracking fresh (self_jid (env_at 1700000000000 alice))
     \<noteq> Inl IncompleteOriginData \<and>
   eventsNextAllowedSendRegister (state (event example_digest Tracking
       (env_at 1700000000000 alice) Rejected AppHeartbeat (None :: unit option) fresh))
     ''account:signin'' = eventsNextAllowedSendRegister fresh ''account:signin''"
proof -
  have veto: "makeEventOrigin example_digest Tracking fresh
      (self_jid (env_at 1700000000000 domain_only)) = Inl IncompleteOriginData"
    by (simp add: example_defs makeEventOrigin_def anonymizeUserIdentifier_def)
  have changed: "eventsNextAllowedSendRegister (state (event example_digest Tracking
       (env_at 1700000000000 alice) Rejected AppHeartbeat (None :: unit option) fresh))
     \<noteq> eventsNextAllowedSendRegister fresh"
    by (simp add: event_state dispatches_def reserve_def sendingTooFrequently_iff
        example_defs makeEventOrigin_def anonymizeUserIdentifier_def)
  have other: "''account:signin'' \<noteq> event_name_value AppHeartbeat"
    by simp
  note thm1 = register_veto_atomicity [of "env_at 1700000000000 domain_only" Tracking fresh
      AppHeartbeat example_digest Rejected "None :: unit option"]
  note thm2 = register_veto_atomicity [of "env_at 1700000000000 alice" Tracking fresh
      AppHeartbeat example_digest Rejected "None :: unit option"]
  from thm1 veto have "state (event example_digest Tracking (env_at 1700000000000 domain_only)
      Rejected AppHeartbeat (None :: unit option) fresh) = fresh"
    by blast
  moreover from thm2 changed have
    "privacy_report_tracking (env_at 1700000000000 alice) \<noteq> Some False \<and>
     \<not> disabledByOverride Tracking (env_at 1700000000000 alice) \<and>
     \<not> sendingTooFrequently (now (env_at 1700000000000 alice))
         (eventsNextAllowedSendRegister fresh) AppHeartbeat \<and>
     makeEventOrigin example_digest Tracking fresh (self_jid (env_at 1700000000000 alice))
       \<noteq> Inl IncompleteOriginData"
    by blast
  moreover from thm2 other have
    "eventsNextAllowedSendRegister (state (event example_digest Tracking
       (env_at 1700000000000 alice) Rejected AppHeartbeat (None :: unit option) fresh))
     ''account:signin'' = eventsNextAllowedSendRegister fresh ''account:signin''"
    by blast
  ultimately show ?thesis using changed by blast
qed

text \<open>
  C3. The code builds the origin first and throws there when it is incomplete, so a call
  comes to the override and the rate-limit tests only with its origin built. Every call
  that passes the opt-out, the override and the rate limit writes \<open>now + 3000\<close> into the
  register entry of its event name before it awaits the request: the instance at the
  point of the request already holds the entry. The entry stays whatever the end of the
  request, a rejection and a response that is not ok included, and any further call for
  the name before that time issues no request.
\<close>

theorem reservation_before_fetch:
  assumes "privacy_report_tracking e \<noteq> Some False"
    and "makeEventOrigin Sha256 u this (self_jid e) = Inr origin"
    and "\<not> disabledByOverride u e"
    and "\<not> sendingTooFrequently (now e) (eventsNextAllowedSendRegister this) name"
  shows "dispatchEvent_try Sha256 u e name data this =
           (Inr \<lparr> payload_name = name, payload_data = data, payload_origin = origin \<rparr>,
            this\<lparr> eventsNextAllowedSendRegister :=
              (eventsNextAllowedSendRegister this)(event_name_value name \<mapsto> now e + 3000) \<rparr>,
            [Log Debug (Sending name),
             Fetch (endpoint u)
               \<lparr> payload_name = name, payload_data = data, payload_origin = origin \<rparr>]) \<and>
         state (event Sha256 u e resp name data this) =
           this\<lparr> eventsNextAllowedSendRegister :=
             (eventsNextAllowedSendRegister this)(event_name_value name \<mapsto> now e + 3000) \<rparr> \<and>
         eventsNextAllowedSendRegister (state (event Sha256 u e resp name data this))
           (event_name_value name) = Some (now e + 3000) \<and>
         (\<forall>e' resp' (data' :: 'r option). now e' < now e + 3000 \<longrightarrow>
            requests (effects (event Sha256 u e' resp' name data'
              (state (event Sha256 u e resp name data this)))) = [])"
proof -
  have d: "dispatches Sha256 u e name this"
    using assms by (simp add: dispatches_def)
  have sync: "dispatchEvent_try Sha256 u e name data this =
           (Inr \<lparr> payload_name = name, payload_data = data, payload_origin = origin \<rparr>,
            this\<lparr> eventsNextAllowedSendRegister :=
              (eventsNextAllowedSendRegister this)(event_name_value name \<mapsto> now e + 3000) \<rparr>,
            [Log Debug (Sending name),
             Fetch (endpoint u)
               \<lparr> payload_name = name, payload_data = data, payload_origin = origin \<rparr>])"
    using assms by (simp add: dispatchEvent_try_def EVENT_NAME_NEXT_SEND_DELAY_def Let_def)
  have st: "state (event Sha256 u e resp name data this) = reserve e name this"
    using d by (simp add: event_state)
  have blocked: "requests (effects (event Sha256 u e' resp' name data'
      (state (event Sha256 u e resp name data this)))) = []"
    if "now e' < now e + 3000" for e' resp' and data' :: "'r option"
  proof -
    have "\<not> dispatches Sha256 u e' name (reserve e name this)"
      using that dispatches_after_reserve [of Sha256 u e' name e this] by auto
    then show ?thesis
      by (simp add: st event_requests)
  qed
  show ?thesis
    using sync blocked
    by (simp add: st reserve_def EVENT_NAME_NEXT_SEND_DELAY_def)
qed

theorem reservation_before_fetch_witness:
  "eventsNextAllowedSendRegister (state (event example_digest Tracking
       (env_at 1700000000000 alice) Rejected AppHeartbeat (None :: unit option) fresh))
     (event_name_value AppHeartbeat) = Some 1700000003000 \<and>
   requests (effects (event example_digest Tracking (env_at 1700000002999 alice)
       (Response True) AppHeartbeat (None :: unit option)
       (state (event example_digest Tracking (env_at 1700000000000 alice) Rejected
          AppHeartbeat (None :: unit option) fresh)))) = []"
proof -
  have h1: "privacy_report_tracking (env_at 1700000000000 alice) \<noteq> Some False"
    by (simp add: example_defs)
  have h2: "makeEventOrigin example_digest Tracking fresh (self_jid (env_at 1700000000000 alice)) =
      Inr \<lparr> origin_app = eventOriginApp fresh,
            origin_pod = \<lparr> domain_hash = ''bfabc37432958b06'',
                            user_hash = Some ''2bd806c97f0e00af'' \<rparr> \<rparr>"
    by (simp add: example_defs makeEventOrigin_def anonymizeUserIdentifier_def
        ANONYMIZED_USER_IDENTIFIER_SHORT_LENGTH_def)
  have h3: "\<not> disabledByOverride Tracking (env_at 1700000000000 alice)"
    by (simp add: example_defs)
  have h4: "\<not> sendingTooFrequently (now (env_at 1700000000000 alice))
      (eventsNextAllowedSendRegister fresh) AppHeartbeat"
    by (simp add: example_defs sendingTooFrequently_iff)
  have later: "now (env_at 1700000002999 alice) < now (env_at 1700000000000 alice) + 3000"
    by (simp add: example_defs)
  note inst = reservation_before_fetch [OF h1 h2 h3 h4, of "None :: unit option" Rejected]
  from inst have "eventsNextAllowedSendRegister (state (event example_digest Tracking
       (env_at 1700000000000 alice) Rejected AppHeartbeat (None :: unit option) fresh))
     (event_name_value AppHeartbeat) = Some (now (env_at 1700000000000 alice) + 3000)"
    by blast
  moreover from inst later have
    "requests (effects (event example_digest Tracking (env_at 1700000002999 alice)
       (Response True) AppHeartbeat (None :: unit option)
       (state (event example_digest Tracking (env_at 1700000000000 alice) Rejected
          AppHeartbeat (None :: unit option) fresh)))) = []"
    by blast
  ultimately show ?thesis
    by (simp add: env_at_def)
qed

text \<open>
  C2. Two calls for one event name, the second at a time strictly before the first call's
  time plus 3000 ms. Together they issue at most one request. When the first call issued
  a request, the second issues none and leaves the instance as it is, and if the second
  call gets as far as the rate-limit test (not opted out, complete origin, no override)
  it fails there, as sending too frequently. An unset register entry never limits a call;
  for a clock that is not negative the test is the comparison with the entry read as 0
  when it is unset.
\<close>

theorem rate_limit_window:
  fixes Sha256 :: "string \<Rightarrow> string" and u :: utility and this :: dispatcher
    and name :: event_name and e1 e2 :: env and r1 r2 :: response
    and d1 d2 :: "'d option"
  fixes first second :: "'d outcome"
  defines "first \<equiv> event Sha256 u e1 r1 name d1 this"
  defines "second \<equiv> event Sha256 u e2 r2 name d2 (state first)"
  assumes "now e2 < now e1 + 3000"
  shows "length (requests (effects first)) + length (requests (effects second)) \<le> 1 \<and>
         (requests (effects first) \<noteq> [] \<longrightarrow>
            requests (effects second) = [] \<and>
            state second = state first \<and>
            (privacy_report_tracking e2 \<noteq> Some False \<and>
             makeEventOrigin Sha256 u (state first) (self_jid e2) \<noteq> Inl IncompleteOriginData \<and>
             \<not> disabledByOverride u e2 \<longrightarrow>
               effects second =
                 [Log Debug (Sending name),
                  Log (failure_level u) (Failed name SendingTooFrequently)])) \<and>
         (eventsNextAllowedSendRegister this (event_name_value name) = None \<longrightarrow>
            \<not> sendingTooFrequently (now e1) (eventsNextAllowedSendRegister this) name) \<and>
         (0 \<le> now e1 \<longrightarrow>
            sendingTooFrequently (now e1) (eventsNextAllowedSendRegister this) name =
              (now e1 < (case eventsNextAllowedSendRegister this (event_name_value name) of
                           None \<Rightarrow> 0
                         | Some v \<Rightarrow> v)))"
proof -
  have one: "length (requests (effects first)) + length (requests (effects second)) \<le> 1"
  proof (cases "dispatches Sha256 u e1 name this")
    case True
    then have st: "state first = reserve e1 name this"
      by (simp add: first_def event_state)
    have "\<not> dispatches Sha256 u e2 name (reserve e1 name this)"
      using assms(3) dispatches_after_reserve [of Sha256 u e2 name e1 this] by auto
    then have "requests (effects second) = []"
      by (simp add: second_def st event_requests)
    then show ?thesis
      by (simp add: first_def event_requests)
  next
    case False
    then have "requests (effects first) = []"
      by (simp add: first_def event_requests)
    then show ?thesis
      by (simp add: second_def event_requests)
  qed
  have after: "requests (effects second) = [] \<and> state second = state first \<and>
      (privacy_report_tracking e2 \<noteq> Some False \<and>
       makeEventOrigin Sha256 u (state first) (self_jid e2) \<noteq> Inl IncompleteOriginData \<and>
       \<not> disabledByOverride u e2 \<longrightarrow>
         effects second =
           [Log Debug (Sending name),
            Log (failure_level u) (Failed name SendingTooFrequently)])"
    if sent: "requests (effects first) \<noteq> []"
  proof -
    have d1: "dispatches Sha256 u e1 name this"
      using sent by (simp add: first_def event_requests split: if_splits)
    then have st: "state first = reserve e1 name this"
      by (simp add: first_def event_state)
    have frequent: "sendingTooFrequently (now e2)
        (eventsNextAllowedSendRegister (reserve e1 name this)) name"
      using assms(3)
      by (simp add: sendingTooFrequently_iff reserve_def EVENT_NAME_NEXT_SEND_DELAY_def)
    then have no: "\<not> dispatches Sha256 u e2 name (reserve e1 name this)"
      by (simp add: dispatches_def)
    have log: "effects second =
        [Log Debug (Sending name), Log (failure_level u) (Failed name SendingTooFrequently)]"
      if p1: "privacy_report_tracking e2 \<noteq> Some False"
        and p2: "makeEventOrigin Sha256 u (state first) (self_jid e2) \<noteq> Inl IncompleteOriginData"
        and p3: "\<not> disabledByOverride u e2"
    proof -
      obtain origin where "makeEventOrigin Sha256 u (reserve e1 name this) (self_jid e2) = Inr origin"
        using p2 makeEventOrigin_complete [of Sha256 u "reserve e1 name this" "self_jid e2"]
        by (auto simp: st)
      then show ?thesis
        using p1 p3 frequent by (simp add: second_def st event_effects)
    qed
    from no log show ?thesis
      by (simp add: second_def st event_requests event_state)
  qed
  have unset: "\<not> sendingTooFrequently (now e1) (eventsNextAllowedSendRegister this) name"
    if "eventsNextAllowedSendRegister this (event_name_value name) = None"
    using that by (simp add: sendingTooFrequently_iff)
  have zero: "sendingTooFrequently (now e1) (eventsNextAllowedSendRegister this) name =
      (now e1 < (case eventsNextAllowedSendRegister this (event_name_value name) of
                   None \<Rightarrow> 0 | Some v \<Rightarrow> v))"
    if "0 \<le> now e1"
    using that by (simp add: sendingTooFrequently_iff split: option.splits)
  from one after unset zero show ?thesis
    by blast
qed

theorem rate_limit_window_witness:
  "length (requests (effects (event example_digest Tracking (env_at 1700000000000 alice)
       (Response True) AppHeartbeat (None :: unit option) fresh))) +
   length (requests (effects (event example_digest Tracking (env_at 1700000002999 alice)
       (Response True) AppHeartbeat (None :: unit option)
       (state (event example_digest Tracking (env_at 1700000000000 alice)
          (Response True) AppHeartbeat (None :: unit option) fresh))))) \<le> 1 \<and>
   requests (effects (event example_digest Tracking (env_at 1700000000000 alice)
       (Response True) AppHeartbeat (None :: unit option) fresh)) \<noteq> [] \<and>
   requests (effects (event example_digest Tracking (env_at 1700000002999 alice)
       (Response True) AppHeartbeat (None :: unit option)
       (state (event example_digest Tracking (env_at 1700000000000 alice)
          (Response True) AppHeartbeat (None :: unit option) fresh)))) = [] \<and>
   effects (event example_digest Tracking (env_at 1700000002999 alice)
       (Response True) AppHeartbeat (None :: unit option)
       (state (event example_digest Tracking (env_at 1700000000000 alice)
          (Response True) AppHeartbeat (None :: unit option) fresh))) =
     [Log Debug (Sending AppHeartbeat), Log Warn (Failed AppHeartbeat SendingTooFrequently)] \<and>
   \<not> sendingTooFrequently 1700000000000 (eventsNextAllowedSendRegister fresh) AppHeartbeat"
proof -
  have within: "now (env_at 1700000002999 alice) < now (env_at 1700000000000 alice) + 3000"
    by (simp add: env_at_def)
  have complete: "makeEventOrigin example_digest Tracking s (self_jid (env_at t alice))
      \<noteq> Inl IncompleteOriginData" for s t
    by (simp add: example_defs makeEventOrigin_def anonymizeUserIdentifier_def)
  have sent: "requests (effects (event example_digest Tracking (env_at 1700000000000 alice)
       (Response True) AppHeartbeat (None :: unit option) fresh)) \<noteq> []"
    using complete [of fresh 1700000000000]
    by (simp add: event_requests dispatches_def sendingTooFrequently_iff)
       (simp add: example_defs)
  have gates: "privacy_report_tracking (env_at 1700000002999 alice) \<noteq> Some False \<and>
      makeEventOrigin example_digest Tracking
        (state (event example_digest Tracking (env_at 1700000000000 alice)
          (Response True) AppHeartbeat (None :: unit option) fresh))
        (self_jid (env_at 1700000002999 alice)) \<noteq> Inl IncompleteOriginData \<and>
      \<not> disabledByOverride Tracking (env_at 1700000002999 alice)"
    using complete by (simp add: env_at_def)
  have unset: "eventsNextAllowedSendRegister fresh (event_name_value AppHeartbeat) = None"
    by (simp add: example_defs)
  note inst = rate_limit_window [of "env_at 1700000002999 alice" "env_at 1700000000000 alice"
      example_digest Tracking "Response True" AppHeartbeat "None :: unit option" fresh
      "Response True" "None :: unit option", OF within]
  from inst sent gates unset show ?thesis
    by (simp add: env_at_def)
qed

text \<open>
  C8. Two calls for one event name that both pass the opt-out, the origin and the
  override, the first also the rate limit, the second at least 3000 ms after the first:
  each issues its request, two requests in all.
\<close>

theorem two_requests_after_cooldown:
  fixes Sha256 :: "string \<Rightarrow> string" and u :: utility and this :: dispatcher
    and name :: event_name and e1 e2 :: env and r1 r2 :: response
    and d1 d2 :: "'d option"
  fixes first second :: "'d outcome"
  defines "first \<equiv> event Sha256 u e1 r1 name d1 this"
  defines "second \<equiv> event Sha256 u e2 r2 name d2 (state first)"
  assumes "privacy_report_tracking e1 \<noteq> Some False"
    and "makeEventOrigin Sha256 u this (self_jid e1) = Inr origin1"
    and "\<not> disabledByOverride u e1"
    and "\<not> sendingTooFrequently (now e1) (eventsNextAllowedSendRegister this) name"
    and "privacy_report_tracking e2 \<noteq> Some False"
    and "makeEventOrigin Sha256 u (state first) (self_jid e2) = Inr origin2"
    and "\<not> disabledByOverride u e2"
    and "now e1 + 3000 \<le> now e2"
  shows "requests (effects first) =
           [\<lparr> payload_name = name, payload_data = d1, payload_origin = origin1 \<rparr>] \<and>
         requests (effects second) =
           [\<lparr> payload_name = name, payload_data = d2, payload_origin = origin2 \<rparr>] \<and>
         length (requests (effects first) @ requests (effects second)) = 2"
proof -
  have d1: "dispatches Sha256 u e1 name this"
    using assms(3-6) by (simp add: dispatches_def)
  then have st: "state first = reserve e1 name this"
    by (simp add: first_def event_state)
  have d2: "dispatches Sha256 u e2 name (reserve e1 name this)"
    using assms(7-10)
    by (simp add: dispatches_def st sendingTooFrequently_iff reserve_def
        EVENT_NAME_NEXT_SEND_DELAY_def)
  have r1: "requests (effects first) =
      [\<lparr> payload_name = name, payload_data = d1, payload_origin = origin1 \<rparr>]"
    using d1 assms(4) by (simp add: first_def event_requests)
  have r2: "requests (effects second) =
      [\<lparr> payload_name = name, payload_data = d2, payload_origin = origin2 \<rparr>]"
    using d2 assms(8) by (simp add: second_def st event_requests)
  from r1 r2 show ?thesis by simp
qed

theorem two_requests_after_cooldown_witness:
  "length (requests (effects (event example_digest Tracking (env_at 1700000000000 alice)
       (Response True) AppHeartbeat (None :: unit option) fresh)) @
     requests (effects (event example_digest Tracking (env_at 1700000003000 alice)
       (Response True) AppHeartbeat (None :: unit option)
       (state (event example_digest Tracking (env_at 1700000000000 alice)
          (Response True) AppHeartbeat (None :: unit option) fresh))))) = 2"
proof -
  have origin: "makeEventOrigin example_digest Tracking s (self_jid (env_at t alice)) =
      Inr \<lparr> origin_app = eventOriginApp s,
            origin_pod = \<lparr> domain_hash = ''bfabc37432958b06'',
                            user_hash = Some ''2bd806c97f0e00af'' \<rparr> \<rparr>" for s t
    by (simp add: example_defs makeEventOrigin_def anonymizeUserIdentifier_def
        ANONYMIZED_USER_IDENTIFIER_SHORT_LENGTH_def)
  have optin: "privacy_report_tracking (env_at t alice) \<noteq> Some False" for t
    by (simp add: env_at_def)
  have override: "\<not> disabledByOverride Tracking (env_at t alice)" for t
    by (simp add: env_at_def)
  have limit: "\<not> sendingTooFrequently (now (env_at 1700000000000 alice))
      (eventsNextAllowedSendRegister fresh) AppHeartbeat"
    by (simp add: example_defs sendingTooFrequently_iff)
  have past: "now (env_at 1700000000000 alice) + 3000 \<le> now (env_at 1700000003000 alice)"
    by (simp add: env_at_def)
  from two_requests_after_cooldown [OF optin origin override limit optin origin override past,
      of "Response True" "None :: unit option" "Response True" "None :: unit option"]
  show ?thesis by blast
qed

text \<open>
  C7. The application origin is computed by the constructor and by nothing else: a call
  of \<^verbatim>\<open>event\<close> reads the package metadata and the platform nowhere. Over any sequence
  of calls on the instance the constructor made, the instance keeps that origin, and
  every request issued carries it.
\<close>

theorem app_origin_constant:
  "eventOriginApp (constructor packageName packageVersion runtimePlatform) =
     prepareEventOriginApp packageName packageVersion runtimePlatform \<and>
   eventOriginApp (fst (run Sha256 u
       (constructor packageName packageVersion runtimePlatform) cs)) =
     prepareEventOriginApp packageName packageVersion runtimePlatform \<and>
   (\<forall>payload \<in> set (requests (snd (run Sha256 u
        (constructor packageName packageVersion runtimePlatform) cs))).
      origin_app (payload_origin payload) =
        prepareEventOriginApp packageName packageVersion runtimePlatform)"
  using run_origin_app [of Sha256 u "constructor packageName packageVersion runtimePlatform" cs]
  by (simp add: constructor_def)

theorem app_origin_constant_witness:
  "list_all (\<lambda>payload. origin_app (payload_origin payload) =
       \<lparr> app_name = ''prose-app-web'', app_version = ''0.0.0'', app_platform = ''web'' \<rparr>)
     (requests (snd (run example_digest Tracking fresh
       [\<lparr> call_env = env_at 1700000000000 alice, call_response = Response True,
           call_name = AccountSignin, call_data = (None :: unit option) \<rparr>,
        \<lparr> call_env = env_at 1700000000001 alice, call_response = Rejected,
           call_name = ProfileUpdate, call_data = None \<rparr>]))) \<and>
   length (requests (snd (run example_digest Tracking fresh
       [\<lparr> call_env = env_at 1700000000000 alice, call_response = Response True,
           call_name = AccountSignin, call_data = (None :: unit option) \<rparr>,
        \<lparr> call_env = env_at 1700000000001 alice, call_response = Rejected,
           call_name = ProfileUpdate, call_data = None \<rparr>]))) = 2"
proof -
  have prepared: "prepareEventOriginApp ''@prose-im/prose-app-web'' ''0.0.0'' ''web'' =
      \<lparr> app_name = ''prose-app-web'', app_version = ''0.0.0'', app_platform = ''web'' \<rparr>"
    by (simp add: prepareEventOriginApp_def)
  have complete: "makeEventOrigin example_digest Tracking s (self_jid (env_at t alice))
      \<noteq> Inl IncompleteOriginData" for s t
    by (simp add: example_defs makeEventOrigin_def anonymizeUserIdentifier_def)
  have two: "length (requests (snd (run example_digest Tracking fresh
       [\<lparr> call_env = env_at 1700000000000 alice, call_response = Response True,
           call_name = AccountSignin, call_data = (None :: unit option) \<rparr>,
        \<lparr> call_env = env_at 1700000000001 alice, call_response = Rejected,
           call_name = ProfileUpdate, call_data = None \<rparr>]))) = 2"
    using complete
    by (simp add: Let_def requests_append event_requests event_state dispatches_def
        sendingTooFrequently_iff reserve_def)
       (simp add: example_defs)
  from app_origin_constant [of "''@prose-im/prose-app-web''" "''0.0.0''" "''web''"
      example_digest Tracking
      "[\<lparr> call_env = env_at 1700000000000 alice, call_response = Response True,
           call_name = AccountSignin, call_data = (None :: unit option) \<rparr>,
        \<lparr> call_env = env_at 1700000000001 alice, call_response = Rejected,
           call_name = ProfileUpdate, call_data = None \<rparr>]"]
  have "\<forall>payload \<in> set (requests (snd (run example_digest Tracking fresh
       [\<lparr> call_env = env_at 1700000000000 alice, call_response = Response True,
           call_name = AccountSignin, call_data = (None :: unit option) \<rparr>,
        \<lparr> call_env = env_at 1700000000001 alice, call_response = Rejected,
           call_name = ProfileUpdate, call_data = None \<rparr>]))).
      origin_app (payload_origin payload) =
        \<lparr> app_name = ''prose-app-web'', app_version = ''0.0.0'', app_platform = ''web'' \<rparr>"
    unfolding prepared fresh_def by blast
  with two show ?thesis
    by (simp add: list_all_iff)
qed

text \<open>
  C6, as the code has it. An identifier that is absent or empty is never hashed. The
  identifier behind \<^verbatim>\<open>user_hash\<close> is the node of the identity in the tracking utility
  and the string form of the identity in the analytics utility; when that identifier is
  absent or empty the origin is incomplete, the call issues no request and leaves the
  instance as it is. So in the tracking utility an identity whose principal is absent or
  empty gives no user hash and no request. Every request that is issued carries as user
  hash the first 16 characters of the digest of a non-empty identifier.
\<close>

theorem empty_identifier_not_hashed:
  "anonymizeUserIdentifier Sha256 None = None \<and>
   anonymizeUserIdentifier Sha256 (Some []) = None \<and>
   (user_identifier u (self_jid e) = None \<or> user_identifier u (self_jid e) = Some [] \<longrightarrow>
      makeEventOrigin Sha256 u this (self_jid e) = Inl IncompleteOriginData \<and>
      requests (effects (event Sha256 u e resp name data this)) = [] \<and>
      state (event Sha256 u e resp name data this) = this) \<and>
   (jid_node (self_jid e) = None \<or> jid_node (self_jid e) = Some [] \<longrightarrow>
      makeEventOrigin Sha256 Tracking this (self_jid e) = Inl IncompleteOriginData \<and>
      requests (effects (event Sha256 Tracking e resp name data this)) = []) \<and>
   (\<forall>payload \<in> set (requests (effects (event Sha256 u e resp name data this))).
      \<exists>s. user_identifier u (self_jid e) = Some s \<and> s \<noteq> [] \<and>
          user_hash (origin_pod (payload_origin payload)) = Some (take 16 (Sha256 s)))"
proof (intro conjI impI ballI)
  show "anonymizeUserIdentifier Sha256 None = None"
    by (simp add: anonymize_None_iff)
  show "anonymizeUserIdentifier Sha256 (Some []) = None"
    by (simp add: anonymize_None_iff)
next
  assume absent: "user_identifier u (self_jid e) = None \<or> user_identifier u (self_jid e) = Some []"
  then show incomplete: "makeEventOrigin Sha256 u this (self_jid e) = Inl IncompleteOriginData"
    by (simp add: makeEventOrigin_incomplete_iff anonymize_None_iff)
  then have no: "\<not> dispatches Sha256 u e name this"
    by (simp add: dispatches_def)
  from no show "requests (effects (event Sha256 u e resp name data this)) = []"
    by (simp add: event_requests)
  from no show "state (event Sha256 u e resp name data this) = this"
    by (simp add: event_state)
next
  assume absent: "jid_node (self_jid e) = None \<or> jid_node (self_jid e) = Some []"
  then show incomplete: "makeEventOrigin Sha256 Tracking this (self_jid e) = Inl IncompleteOriginData"
    by (simp add: makeEventOrigin_incomplete_iff anonymize_None_iff)
  then have "\<not> dispatches Sha256 Tracking e name this"
    by (simp add: dispatches_def)
  then show "requests (effects (event Sha256 Tracking e resp name data this)) = []"
    by (simp add: event_requests)
next
  fix payload
  assume "payload \<in> set (requests (effects (event Sha256 u e resp name data this)))"
  then have d: "dispatches Sha256 u e name this"
    and p: "payload_origin payload = projr (makeEventOrigin Sha256 u this (self_jid e))"
    by (auto simp: event_requests split: if_splits)
  from d have "makeEventOrigin Sha256 u this (self_jid e) \<noteq> Inl IncompleteOriginData"
    by (simp add: dispatches_def)
  then obtain origin where o: "makeEventOrigin Sha256 u this (self_jid e) = Inr origin"
    using makeEventOrigin_complete by blast
  from o obtain h where h: "anonymizeUserIdentifier Sha256 (user_identifier u (self_jid e)) = Some h"
    and u: "user_hash (origin_pod origin) = Some h"
    by (auto simp: makeEventOrigin_def Let_def split: option.splits)
  from anonymize_Some [OF h] u o p
  show "\<exists>s. user_identifier u (self_jid e) = Some s \<and> s \<noteq> [] \<and>
      user_hash (origin_pod (payload_origin payload)) = Some (take 16 (Sha256 s))"
    by auto
qed

theorem empty_identifier_not_hashed_witness:
  "makeEventOrigin example_digest Tracking fresh (self_jid (env_at 1700000000000 domain_only)) =
     Inl IncompleteOriginData \<and>
   requests (effects (event example_digest Tracking (env_at 1700000000000 domain_only)
       (Response True) AppHeartbeat (None :: unit option) fresh)) = [] \<and>
   state (event example_digest Tracking (env_at 1700000000000 domain_only)
       (Response True) AppHeartbeat (None :: unit option) fresh) = fresh \<and>
   list_all (\<lambda>payload. user_hash (origin_pod (payload_origin payload)) = Some ''2bd806c97f0e00af'')
     (requests (effects (event example_digest Tracking (env_at 1700000000000 alice)
       (Response True) AppHeartbeat (None :: unit option) fresh))) \<and>
   requests (effects (event example_digest Tracking (env_at 1700000000000 alice)
       (Response True) AppHeartbeat (None :: unit option) fresh)) \<noteq> []"
proof -
  have absent: "user_identifier Tracking (self_jid (env_at 1700000000000 domain_only)) = None \<or>
      user_identifier Tracking (self_jid (env_at 1700000000000 domain_only)) = Some []"
    by (simp add: example_defs)
  have node: "jid_node (self_jid (env_at 1700000000000 domain_only)) = None \<or>
      jid_node (self_jid (env_at 1700000000000 domain_only)) = Some []"
    by (simp add: example_defs)
  have present: "user_identifier Tracking (self_jid (env_at 1700000000000 alice)) = Some ''alice''"
    by (simp add: example_defs)
  have digest: "take 16 (example_digest ''alice'') = ''2bd806c97f0e00af''"
    by (simp add: example_digest_def)
  have complete: "makeEventOrigin example_digest Tracking fresh
      (self_jid (env_at 1700000000000 alice)) \<noteq> Inl IncompleteOriginData"
    by (simp add: example_defs makeEventOrigin_def anonymizeUserIdentifier_def)
  have sent: "requests (effects (event example_digest Tracking (env_at 1700000000000 alice)
       (Response True) AppHeartbeat (None :: unit option) fresh)) \<noteq> []"
    using complete
    by (simp add: event_requests dispatches_def sendingTooFrequently_iff)
       (simp add: example_defs)
  note vetoed = empty_identifier_not_hashed [of example_digest Tracking
      "env_at 1700000000000 domain_only" fresh "Response True" AppHeartbeat "None :: unit option"]
  note issued = empty_identifier_not_hashed [of example_digest Tracking
      "env_at 1700000000000 alice" fresh "Response True" AppHeartbeat "None :: unit option"]
  from vetoed absent node have
    "makeEventOrigin example_digest Tracking fresh (self_jid (env_at 1700000000000 domain_only)) =
       Inl IncompleteOriginData \<and>
     requests (effects (event example_digest Tracking (env_at 1700000000000 domain_only)
       (Response True) AppHeartbeat (None :: unit option) fresh)) = [] \<and>
     state (event example_digest Tracking (env_at 1700000000000 domain_only)
       (Response True) AppHeartbeat (None :: unit option) fresh) = fresh"
    by blast
  moreover from issued present digest have
    "list_all (\<lambda>payload. user_hash (origin_pod (payload_origin payload)) = Some ''2bd806c97f0e00af'')
      (requests (effects (event example_digest Tracking (env_at 1700000000000 alice)
        (Response True) AppHeartbeat (None :: unit option) fresh)))"
    by (simp add: list_all_iff)
  ultimately show ?thesis
    using sent by blast
qed

text \<open>
  The claim as it is written, for every identity whose principal is absent or empty, fails
  in the analytics utility: for the address of a domain the user hash is the digest of
  the string form, and the request is sent.
\<close>

theorem empty_principal_counterexample:
  "jid_node (self_jid (env_at 1700000000000 domain_only)) = None \<and>
   requests (effects (event example_digest Analytics (env_at 1700000000000 domain_only)
       (Response True) AppHeartbeat (None :: unit option) fresh)) =
     [\<lparr> payload_name = AppHeartbeat, payload_data = None,
        payload_origin =
          \<lparr> origin_app = eventOriginApp fresh,
            origin_pod = \<lparr> domain_hash = ''bfabc37432958b06'',
                            user_hash = Some ''bfabc37432958b06'' \<rparr> \<rparr> \<rparr>]"
proof -
  have origin: "makeEventOrigin example_digest Analytics fresh
      (self_jid (env_at 1700000000000 domain_only)) =
        Inr \<lparr> origin_app = eventOriginApp fresh,
              origin_pod = \<lparr> domain_hash = ''bfabc37432958b06'',
                              user_hash = Some ''bfabc37432958b06'' \<rparr> \<rparr>"
    by (simp add: example_digest_def domain_only_def env_at_def makeEventOrigin_def
        anonymizeUserIdentifier_def ANONYMIZED_USER_IDENTIFIER_SHORT_LENGTH_def)
  have passes: "dispatches example_digest Analytics (env_at 1700000000000 domain_only)
      AppHeartbeat fresh"
    by (simp add: dispatches_def origin sendingTooFrequently_iff)
       (simp add: example_defs)
  show ?thesis
    by (simp add: event_requests passes origin) (simp add: example_defs)
qed

end
